theory Spec2Isabelle
  imports Main
begin

section \<open>Python strings\<close>

text \<open>
  A Python \<open>str\<close> is modelled as a \<^typ>\<open>string\<close>. Four string methods are used by
  \<open>python/runtime/local/submitter.py\<close>: \<open>lower\<close>, \<open>startswith\<close>, \<open>split\<close> and
  \<open>replace\<close>.

  \<open>str_lower\<close> maps the letters \<open>A\<close> .. \<open>Z\<close> to \<open>a\<close> .. \<open>z\<close> and leaves every other
  character as it is. Outside ASCII Python's \<open>str.lower\<close> does more, but it maps no
  non-ASCII code point to a text that begins with an ASCII letter other than \<open>i\<close> and
  \<open>k\<close>, so the only use of \<open>lower\<close> in the source, the test
  \<open>estimator_string.lower().startswith("xgboost")\<close>, is not affected.
\<close>

definition lower_char :: "char \<Rightarrow> char" where
  "lower_char c =
     (let n = (of_char c :: nat)
      in if 65 \<le> n \<and> n \<le> 90 then char_of (n + 32) else c)"

definition str_lower :: "string \<Rightarrow> string" where
  "str_lower s = map lower_char s"

fun str_startswith :: "string \<Rightarrow> string \<Rightarrow> bool" where
  "str_startswith s [] = True"
| "str_startswith [] (p # ps) = False"
| "str_startswith (c # cs) (p # ps) = (c = p \<and> str_startswith cs ps)"

text \<open>
  \<open>s.split(sep)\<close> for a separator of one character: the pieces of \<open>s\<close> between the
  occurrences of \<open>sep\<close>, empty pieces included, so that there is always one piece more
  than there are separators. \<open>acc\<close> holds the current piece, reversed.
\<close>

fun split_acc :: "char \<Rightarrow> string \<Rightarrow> string \<Rightarrow> string list" where
  "split_acc sep acc [] = [rev acc]"
| "split_acc sep acc (c # cs) =
     (if c = sep then rev acc # split_acc sep [] cs else split_acc sep (c # acc) cs)"

definition str_split :: "string \<Rightarrow> char \<Rightarrow> string list" where
  "str_split s sep = split_acc sep [] s"

text \<open>
  \<open>sep.join(pieces)\<close>, the inverse of \<open>split\<close>; it is not called by the source and
  serves to say what splitting on a separator means.
\<close>

fun str_join :: "char \<Rightarrow> string list \<Rightarrow> string" where
  "str_join sep [] = []"
| "str_join sep [x] = x"
| "str_join sep (x # y # ys) = x @ sep # str_join sep (y # ys)"

text \<open>
  \<open>s.replace(old, new)\<close> replaces every occurrence of \<open>old\<close> in \<open>s\<close>, scanning from
  the left and continuing after each replaced occurrence. With an empty \<open>old\<close> Python
  puts \<open>new\<close> before every character and at the end.
\<close>

function str_replace :: "string \<Rightarrow> string \<Rightarrow> string \<Rightarrow> string" where
  "str_replace s old new =
     (if old = [] then new @ concat (map (\<lambda>c. c # new) s)
      else if s = [] then []
      else if str_startswith s old then new @ str_replace (drop (length old) s) old new
      else hd s # str_replace (tl s) old new)"
  by pat_completeness auto
termination
  by (relation "measure (\<lambda>(s, old, new). length s)") auto

declare str_replace.simps [simp del]

section \<open>Exceptions, dictionaries and the outside world\<close>

text \<open>
  The exceptions the dispatcher raises itself, and \<open>OtherError\<close> for whatever else a
  collaborator (the model registry, a backend routine) may raise.
\<close>

datatype exn =
    NotImplementedError string
  | ValueError string
  | AssertionError
  | IndexError
  | KeyError string
  | OtherError string

text \<open>
  A Python \<open>dict\<close> with \<open>str\<close> keys: the items in insertion order, every key at most
  once. \<open>dict_get d k dflt\<close> is \<open>d.get(k, dflt)\<close>, \<open>dict_getitem d k\<close> is
  \<open>d[k]\<close> and \<open>dict_setitem d k v\<close> is \<open>d[k] = v\<close>, which keeps the place of a key
  that is there already and appends a new one.
\<close>

type_synonym 'v dict = "(string \<times> 'v) list"

definition dict_keys :: "'v dict \<Rightarrow> string list" where
  "dict_keys d = map fst d"

definition dict_get :: "'v dict \<Rightarrow> string \<Rightarrow> 'v \<Rightarrow> 'v" where
  "dict_get d k dflt = (case map_of d k of None \<Rightarrow> dflt | Some v \<Rightarrow> v)"

definition dict_getitem :: "'v dict \<Rightarrow> string \<Rightarrow> exn + 'v" where
  "dict_getitem d k = (case map_of d k of None \<Rightarrow> Inl (KeyError k) | Some v \<Rightarrow> Inr v)"

fun dict_setitem :: "'v dict \<Rightarrow> string \<Rightarrow> 'v \<Rightarrow> 'v dict" where
  "dict_setitem [] k v = [(k, v)]"
| "dict_setitem ((k', v') # d) k v =
     (if k' = k then (k', v) # d else (k', v') # dict_setitem d k v)"

text \<open>
  The world outside the dispatcher: the lines printed to the standard output so far,
  and in the extension of the record whatever the registry and the backends read and
  write (the database, the file system). A call takes the world and returns the
  exception it raised or the value it returned, together with the new world.
\<close>

record world =
  stdout :: "string list"

type_synonym ('s, 'a) io = "'s world_scheme \<Rightarrow> (exn + 'a) \<times> 's world_scheme"

definition print :: "string \<Rightarrow> 's world_scheme \<Rightarrow> 's world_scheme" where
  "print line w = w\<lparr>stdout := stdout w @ [line]\<rparr>"

text \<open>A call whose return value is dropped: the caller goes on to return \<open>None\<close>.\<close>

definition discard :: "(exn + 'a) \<times> 'w \<Rightarrow> (exn + unit) \<times> 'w" where
  "discard r = (case r of (Inl e, w) \<Rightarrow> (Inl e, w) | (Inr _, w) \<Rightarrow> (Inr (), w))"

section \<open>The collaborators\<close>

text \<open>
  Modelled from the spec: the classes \<open>FieldDesc\<close> and \<open>FeatureColumn\<close> of
  \<open>runtime.feature\<close> are not part of the sources at hand. A feature column has a list
  of field descriptors (\<open>get_field_desc()\<close>), and a field descriptor has a \<open>name\<close>.
\<close>

record field_desc =
  name :: string

datatype feature_column = FeatureColumn (get_field_desc: "field_desc list")

text \<open>
  The values found in a model's metadata: \<open>None\<close>, booleans, integers, strings and
  feature columns. \<open>truthy\<close> is Python's truth value, which \<open>not\<close> negates;
  \<open>isinstance_FeatureColumn v\<close> is \<open>isinstance(v, FeatureColumn)\<close>.
\<close>

datatype pyval =
    PyNone
  | PyBool bool
  | PyInt int
  | PyStr string
  | PyFeatureColumn feature_column

fun truthy :: "pyval \<Rightarrow> bool" where
  "truthy PyNone = False"
| "truthy (PyBool b) = b"
| "truthy (PyInt n) = (n \<noteq> 0)"
| "truthy (PyStr s) = (s \<noteq> [])"
| "truthy (PyFeatureColumn fc) = True"

fun isinstance_FeatureColumn :: "pyval \<Rightarrow> bool" where
  "isinstance_FeatureColumn (PyFeatureColumn fc) = True"
| "isinstance_FeatureColumn v = False"

text \<open>
  The model registry (\<open>runtime.model\<close>) is outside the sources at hand and is a
  parameter: \<open>load_from_db\<close> is \<open>Model.load_from_db\<close>, \<open>get_type\<close> and \<open>get_meta\<close>
  are the methods of the loaded \<open>Model\<close>, \<open>XGBOOST\<close> is \<open>EstimatorType.XGBOOST\<close>,
  \<open>format_type t\<close> is the text that \<open>"{}".format(t)\<close> gives for a type tag, and
  \<open>read_metadata_from_db\<close> is the function of that name in \<open>runtime.model.db\<close>.
  \<open>'m\<close> is the type of models and \<open>'t\<close> the type of type tags.
\<close>

record ('s, 'm, 't) registry =
  load_from_db :: "string \<Rightarrow> string \<Rightarrow> ('s, 'm) io"
  get_type :: "'m \<Rightarrow> 't"
  get_meta :: "'m \<Rightarrow> string \<Rightarrow> pyval"
  XGBOOST :: "'t"
  format_type :: "'t \<Rightarrow> string"
  read_metadata_from_db :: "string \<Rightarrow> string \<Rightarrow> ('s, pyval dict) io"

text \<open>
  The keyword arguments of a train routine: field \<open>kw_x\<close> is the keyword \<open>x\<close>.
  \<open>'fc\<close> is the type of feature column maps, \<open>'lc\<close> of label columns and \<open>'p\<close> of
  parameter dictionaries, none of which the dispatcher looks into.
\<close>

record ('fc, 'lc, 'p) train_kwargs =
  kw_original_sql :: string
  kw_model_image :: string
  kw_estimator_string :: string
  kw_datasource :: string
  kw_select :: string
  kw_validation_select :: string
  kw_model_params :: 'p
  kw_train_params :: 'p
  kw_validation_params :: 'p
  kw_feature_column_map :: 'fc
  kw_label_column :: 'lc
  kw_save :: string
  kw_load :: string

section \<open>The dispatcher\<close>

subsection \<open>Train\<close>

text \<open>
  The two train routines \<open>xgboost_train\<close> and \<open>tf_train\<close> are parameters.
  \<open>train_func\<close> is the local variable of that name: the routine chosen from the
  estimator name.
\<close>

definition train_func :: "'r \<Rightarrow> 'r \<Rightarrow> string \<Rightarrow> 'r" where
  "train_func xgboost_train tf_train estimator_string =
     (if str_startswith (str_lower estimator_string) ''xgboost''
      then xgboost_train else tf_train)"

definition submit_local_train ::
  "(('fc, 'lc, 'p) train_kwargs \<Rightarrow> ('s, 'a) io) \<Rightarrow> (('fc, 'lc, 'p) train_kwargs \<Rightarrow> ('s, 'a) io) \<Rightarrow>
   string \<Rightarrow> string \<Rightarrow> string \<Rightarrow> string \<Rightarrow> string \<Rightarrow> string \<Rightarrow> 'fc \<Rightarrow> 'lc \<Rightarrow> 'p \<Rightarrow> 'p \<Rightarrow> 'p \<Rightarrow>
   string \<Rightarrow> string \<Rightarrow> string \<Rightarrow> ('s, 'a) io" where
  "submit_local_train xgboost_train tf_train datasource original_sql select validation_select
     estimator_string model_image feature_column_map label_column model_params train_params
     validation_params save load user =
     train_func xgboost_train tf_train estimator_string
       \<lparr>kw_original_sql = original_sql,
        kw_model_image = model_image,
        kw_estimator_string = estimator_string,
        kw_datasource = datasource,
        kw_select = select,
        kw_validation_select = validation_select,
        kw_model_params = model_params,
        kw_train_params = train_params,
        kw_validation_params = validation_params,
        kw_feature_column_map = feature_column_map,
        kw_label_column = label_column,
        kw_save = save,
        kw_load = load\<rparr>"

subsection \<open>Predict\<close>

text \<open>
  The exception of the three \<open>else\<close> branches:
  \<open>NotImplementedError("not implemented model type: {}".format(model.get_type()))\<close>.
\<close>

definition not_implemented :: "('s, 'm, 't) registry \<Rightarrow> 'm \<Rightarrow> exn" where
  "not_implemented reg model =
     NotImplementedError (''not implemented model type: '' @ format_type reg (get_type reg model))"

definition submit_local_pred ::
  "('s, 'm, 't) registry \<Rightarrow> (string \<Rightarrow> string \<Rightarrow> string \<Rightarrow> 'lc \<Rightarrow> 'm \<Rightarrow> ('s, 'a) io) \<Rightarrow>
   string \<Rightarrow> string \<Rightarrow> string \<Rightarrow> string \<Rightarrow> 'lc \<Rightarrow> 'p \<Rightarrow> string \<Rightarrow> string \<Rightarrow> ('s, unit) io" where
  "submit_local_pred reg xgboost_pred datasource original_sql select model_name label_column
     model_params result_table user w =
     (case load_from_db reg datasource model_name w of
        (Inl e, w') \<Rightarrow> (Inl e, w')
      | (Inr model, w') \<Rightarrow>
          if get_type reg model = XGBOOST reg
          then discard (xgboost_pred datasource select result_table label_column model w')
          else (Inl (not_implemented reg model), w'))"

subsection \<open>Evaluate\<close>

text \<open>
  \<open>validation_metrics\<close> is the local variable of that name; the options of
  \<open>model_params\<close> are texts. \<open>pred_label_name\<close> is
  \<open>label_fc.get_field_desc()[0].name\<close>, which raises \<open>IndexError\<close> on an empty list.
  The \<open>assert\<close> statement is executed (Python does not run with \<open>-O\<close>): a label
  that is not a feature column raises \<open>AssertionError\<close>.
\<close>

definition validation_metrics :: "string dict \<Rightarrow> string list" where
  "validation_metrics model_params =
     str_split (dict_get model_params ''validation.metrics'' ''Accuracy'') CHR '',''"

definition pred_label_name :: "feature_column \<Rightarrow> exn + string" where
  "pred_label_name label_fc =
     (case get_field_desc label_fc of [] \<Rightarrow> Inl IndexError | fd # _ \<Rightarrow> Inr (name fd))"

definition submit_local_evaluate ::
  "('s, 'm, 't) registry \<Rightarrow>
   (string \<Rightarrow> string \<Rightarrow> string \<Rightarrow> 'm \<Rightarrow> string \<Rightarrow> string list \<Rightarrow> ('s, 'a) io) \<Rightarrow>
   string \<Rightarrow> string \<Rightarrow> string \<Rightarrow> string \<Rightarrow> string dict \<Rightarrow> string \<Rightarrow> string \<Rightarrow> ('s, unit) io" where
  "submit_local_evaluate reg xgboost_evaluate datasource original_sql select model_name
     model_params result_table user w =
     (case load_from_db reg datasource model_name w of
        (Inl e, w') \<Rightarrow> (Inl e, w')
      | (Inr model, w') \<Rightarrow>
          (case get_meta reg model ''label'' of
             PyFeatureColumn label_fc \<Rightarrow>
               (case pred_label_name label_fc of
                  Inl e \<Rightarrow> (Inl e, w')
                | Inr label_name \<Rightarrow>
                    if get_type reg model = XGBOOST reg
                    then discard (xgboost_evaluate datasource select result_table model
                                    label_name (validation_metrics model_params) w')
                    else (Inl (not_implemented reg model), w'))
           | _ \<Rightarrow> (Inl AssertionError, w')))"

subsection \<open>Explain\<close>

text \<open>
  The loop over the keys of \<open>model_params\<close>: \<open>ks\<close> are the keys still to visit and
  \<open>summary_params\<close> is the dictionary built so far.
\<close>

fun summary_loop :: "'v dict \<Rightarrow> string list \<Rightarrow> 'v dict \<Rightarrow> exn + 'v dict" where
  "summary_loop model_params [] summary_params = Inr summary_params"
| "summary_loop model_params (k # ks) summary_params =
     (if str_startswith k ''summary.''
      then (case dict_getitem model_params k of
              Inl e \<Rightarrow> Inl e
            | Inr v \<Rightarrow>
                summary_loop model_params ks
                  (dict_setitem summary_params (str_replace k ''summary.'' []) v))
      else summary_loop model_params ks summary_params)"

definition summary_params_of :: "'v dict \<Rightarrow> exn + 'v dict" where
  "summary_params_of model_params = summary_loop model_params (dict_keys model_params) []"

definition submit_local_explain ::
  "('s, 'm, 't) registry \<Rightarrow>
   (string \<Rightarrow> string \<Rightarrow> string \<Rightarrow> 'v dict \<Rightarrow> string \<Rightarrow> 'm \<Rightarrow> ('s, 'a) io) \<Rightarrow>
   string \<Rightarrow> string \<Rightarrow> string \<Rightarrow> string \<Rightarrow> 'v dict \<Rightarrow> string \<Rightarrow> string \<Rightarrow> string \<Rightarrow> ('s, unit) io" where
  "submit_local_explain reg xgboost_explain datasource original_sql select model_name
     model_params result_table explainer user w =
     (case load_from_db reg datasource model_name w of
        (Inl e, w') \<Rightarrow> (Inl e, w')
      | (Inr model, w') \<Rightarrow>
          (case summary_params_of model_params of
             Inl e \<Rightarrow> (Inl e, w')
           | Inr summary_params \<Rightarrow>
               if get_type reg model = XGBOOST reg
               then discard (xgboost_explain datasource select explainer summary_params
                               result_table model w')
               else (Inl (not_implemented reg model), w')))"

subsection \<open>Show train\<close>

text \<open>
  \<open>dump_strings rows header\<close> stands for
  \<open>table_writer.ProtobufWriter(rows, header).dump_strings()\<close>, which is outside the
  sources at hand: a function from the rows and the header to the lines of text.
\<close>

fun print_lines :: "string list \<Rightarrow> 's world_scheme \<Rightarrow> 's world_scheme" where
  "print_lines [] w = w"
| "print_lines (line # lines) w = print_lines lines (print line w)"

definition submit_local_show_train ::
  "('s, 'm, 't) registry \<Rightarrow> ((string \<times> pyval) list \<Rightarrow> string list \<Rightarrow> string list) \<Rightarrow>
   string \<Rightarrow> string \<Rightarrow> ('s, unit) io" where
  "submit_local_show_train reg dump_strings datasource model_name w =
     (case read_metadata_from_db reg datasource model_name w of
        (Inl e, w') \<Rightarrow> (Inl e, w')
      | (Inr meta, w') \<Rightarrow>
          (let original_sql = dict_get meta ''original_sql'' PyNone
           in if \<not> truthy original_sql
              then (Inl (ValueError ''cannot find the train SQL statement''), w')
              else (let result_set = [(model_name, original_sql)];
                        header = [''Model'', ''Train Statement'']
                    in (Inr (), print_lines (dump_strings result_set header) w'))))"

section \<open>A registry in memory and routines that log their arguments\<close>

text \<open>
  An instance of the collaborators, used to run the dispatcher on concrete inputs: the
  registry is a dictionary from model names to stored models, the type tags are texts,
  the backend routines print their arguments and return \<open>0\<close>, and the writer gives the
  header followed by the cells of the rows.
\<close>

record stored_model =
  model_type :: string
  model_meta :: "pyval dict"

definition memory_registry :: "stored_model dict \<Rightarrow> ('s, stored_model, string) registry" where
  "memory_registry models =
     \<lparr>load_from_db = (\<lambda>datasource model_name w.
        case map_of models model_name of
          None \<Rightarrow> (Inl (OtherError ''no such model''), w)
        | Some model \<Rightarrow> (Inr model, w)),
      get_type = model_type,
      get_meta = (\<lambda>model k. dict_get (model_meta model) k PyNone),
      XGBOOST = ''XGBOOST'',
      format_type = (\<lambda>t. t),
      read_metadata_from_db = (\<lambda>datasource model_name w.
        case map_of models model_name of
          None \<Rightarrow> (Inl (OtherError ''no such model''), w)
        | Some model \<Rightarrow> (Inr (model_meta model), w))\<rparr>"

definition example_m1 :: stored_model where
  "example_m1 =
     \<lparr>model_type = ''XGBOOST'',
      model_meta = [(''original_sql'', PyStr ''SELECT * FROM t''),
                    (''label'', PyFeatureColumn (FeatureColumn [\<lparr>name = ''class''\<rparr>]))]\<rparr>"

definition example_m2 :: stored_model where
  "example_m2 =
     \<lparr>model_type = ''TENSORFLOW'',
      model_meta = [(''original_sql'', PyStr []),
                    (''label'', PyFeatureColumn (FeatureColumn [\<lparr>name = ''class''\<rparr>]))]\<rparr>"

definition example_m3 :: stored_model where
  "example_m3 = \<lparr>model_type = ''TENSORFLOW'', model_meta = []\<rparr>"

definition example_m4 :: stored_model where
  "example_m4 =
     \<lparr>model_type = ''TENSORFLOW'', model_meta = [(''label'', PyFeatureColumn (FeatureColumn []))]\<rparr>"

definition example_registry :: "(unit, stored_model, string) registry" where
  "example_registry =
     memory_registry
       [(''m1'', example_m1), (''m2'', example_m2), (''m3'', example_m3), (''m4'', example_m4)]"

definition example_xgboost_pred ::
  "string \<Rightarrow> string \<Rightarrow> string \<Rightarrow> string \<Rightarrow> stored_model \<Rightarrow> (unit, nat) io" where
  "example_xgboost_pred datasource select result_table label_column model w =
     (Inr 0, w\<lparr>stdout := stdout w @ [''pred'', datasource, select, result_table, label_column]\<rparr>)"

definition example_xgboost_evaluate ::
  "string \<Rightarrow> string \<Rightarrow> string \<Rightarrow> stored_model \<Rightarrow> string \<Rightarrow> string list \<Rightarrow> (unit, nat) io" where
  "example_xgboost_evaluate datasource select result_table model label_name metrics w =
     (Inr 0, w\<lparr>stdout := stdout w @
        [''evaluate'', datasource, select, result_table, label_name] @ metrics\<rparr>)"

definition example_xgboost_explain ::
  "string \<Rightarrow> string \<Rightarrow> string \<Rightarrow> string dict \<Rightarrow> string \<Rightarrow> stored_model \<Rightarrow> (unit, nat) io" where
  "example_xgboost_explain datasource select explainer summary_params result_table model w =
     (Inr 0, w\<lparr>stdout := stdout w @
        [''explain'', datasource, select, explainer, result_table] @ dict_keys summary_params\<rparr>)"

fun example_cell :: "pyval \<Rightarrow> string" where
  "example_cell (PyStr s) = s"
| "example_cell v = []"

definition example_dump_strings :: "(string \<times> pyval) list \<Rightarrow> string list \<Rightarrow> string list" where
  "example_dump_strings rows header =
     header @ concat (map (\<lambda>(model_name, v). [model_name, example_cell v]) rows)"

section \<open>Facts about the string functions\<close>

lemma str_startswith_iff: "str_startswith s p \<longleftrightarrow> (\<exists>r. s = p @ r)"
  by (induction s p rule: str_startswith.induct) auto

lemma str_lower_append: "str_lower (p @ r) = str_lower p @ str_lower r"
  by (simp add: str_lower_def)

lemma str_lower_prefix_iff:
  "str_startswith (str_lower s) q \<longleftrightarrow> (\<exists>p r. s = p @ r \<and> str_lower p = q)"
proof
  assume "str_startswith (str_lower s) q"
  then obtain r' where "map lower_char s = q @ r'"
    by (auto simp add: str_startswith_iff str_lower_def)
  then obtain p r where "s = p @ r" "map lower_char p = q"
    by (auto simp add: map_eq_append_conv)
  then show "\<exists>p r. s = p @ r \<and> str_lower p = q"
    by (auto simp add: str_lower_def)
next
  assume "\<exists>p r. s = p @ r \<and> str_lower p = q"
  then show "str_startswith (str_lower s) q"
    by (auto simp add: str_startswith_iff str_lower_append)
qed

lemma split_acc_not_Nil: "split_acc sep acc s \<noteq> []"
  by (induction s arbitrary: acc) auto

lemma str_join_Cons: "ys \<noteq> [] \<Longrightarrow> str_join sep (x # ys) = x @ sep # str_join sep ys"
  by (cases ys) auto

lemma str_join_split_acc: "str_join sep (split_acc sep acc s) = rev acc @ s"
  by (induction s arbitrary: acc) (auto simp add: str_join_Cons split_acc_not_Nil)

lemma split_acc_no_sep:
  "sep \<notin> set acc \<Longrightarrow> \<forall>x \<in> set (split_acc sep acc s). sep \<notin> set x"
proof (induction s arbitrary: acc)
  case Nil
  then show ?case by simp
next
  case (Cons c cs)
  show ?case
  proof (cases "c = sep")
    case True
    with Cons.prems Cons.IH [of "[]"] show ?thesis by simp
  next
    case False
    with Cons.prems Cons.IH [of "c # acc"] show ?thesis by simp
  qed
qed

lemma str_join_str_split: "str_join sep (str_split s sep) = s"
  by (simp add: str_split_def str_join_split_acc)

lemma str_split_no_sep: "x \<in> set (str_split s sep) \<Longrightarrow> sep \<notin> set x"
  using split_acc_no_sep [of sep "[]" s] by (simp add: str_split_def)

lemma length_split_acc: "length (split_acc sep acc s) = Suc (count_list s sep)"
  by (induction s arbitrary: acc) auto

lemma str_replace_prefix:
  "old \<noteq> [] \<Longrightarrow> str_replace (old @ r) old new = new @ str_replace r old new"
  by (subst str_replace.simps) (simp add: str_startswith_iff)

section \<open>Facts about the loops\<close>

lemma print_lines_stdout: "print_lines lines w = w\<lparr>stdout := stdout w @ lines\<rparr>"
  by (induction lines arbitrary: w) (simp_all add: print_def)

lemma dict_getitem_key: "k \<in> set (dict_keys d) \<Longrightarrow> \<exists>v. dict_getitem d k = Inr v"
  by (cases "map_of d k") (auto simp add: dict_getitem_def dict_keys_def map_of_eq_None_iff)

lemma summary_loop_returns:
  "set ks \<subseteq> set (dict_keys model_params) \<Longrightarrow>
     \<exists>summary_params'. summary_loop model_params ks summary_params = Inr summary_params'"
proof (induction ks arbitrary: summary_params)
  case Nil
  then show ?case by simp
next
  case (Cons k ks)
  then obtain v where "dict_getitem model_params k = Inr v"
    using dict_getitem_key [of k model_params] by auto
  with Cons show ?case by simp
qed

lemma summary_params_of_returns: "\<exists>summary_params. summary_params_of model_params = Inr summary_params"
  by (simp add: summary_params_of_def summary_loop_returns)

section \<open>Train dispatch\<close>

text \<open>
  Claim C1: for every estimator name whose lowercase form starts with \<open>xgboost\<close>,
  \<open>submit_local_train\<close> selects \<open>xgboost_train\<close>, and for every other estimator name
  it selects \<open>tf_train\<close>. The selection does not depend on the case of the letters: the
  test holds exactly when the name begins with a text whose lowercase form is
  \<open>xgboost\<close>, and two names with the same lowercase form select the same routine.
\<close>

theorem submit_local_train_selects:
  "(str_startswith (str_lower estimator_string) ''xgboost'' \<longrightarrow>
      train_func xgboost_train tf_train estimator_string = xgboost_train \<and>
      (\<exists>kw. submit_local_train xgboost_train tf_train datasource original_sql select
               validation_select estimator_string model_image feature_column_map label_column
               model_params train_params validation_params save load user =
             xgboost_train kw)) \<and>
   (\<not> str_startswith (str_lower estimator_string) ''xgboost'' \<longrightarrow>
      train_func xgboost_train tf_train estimator_string = tf_train \<and>
      (\<exists>kw. submit_local_train xgboost_train tf_train datasource original_sql select
               validation_select estimator_string model_image feature_column_map label_column
               model_params train_params validation_params save load user =
             tf_train kw)) \<and>
   (str_startswith (str_lower estimator_string) ''xgboost'' \<longleftrightarrow>
      (\<exists>p r. estimator_string = p @ r \<and> str_lower p = ''xgboost'')) \<and>
   (str_lower other = str_lower estimator_string \<longrightarrow>
      train_func xgboost_train tf_train other =
      train_func xgboost_train tf_train estimator_string)"
proof (intro conjI)
  show "str_startswith (str_lower estimator_string) ''xgboost'' \<longrightarrow>
      train_func xgboost_train tf_train estimator_string = xgboost_train \<and>
      (\<exists>kw. submit_local_train xgboost_train tf_train datasource original_sql select
               validation_select estimator_string model_image feature_column_map label_column
               model_params train_params validation_params save load user =
             xgboost_train kw)"
    by (auto simp add: train_func_def submit_local_train_def)
  show "\<not> str_startswith (str_lower estimator_string) ''xgboost'' \<longrightarrow>
      train_func xgboost_train tf_train estimator_string = tf_train \<and>
      (\<exists>kw. submit_local_train xgboost_train tf_train datasource original_sql select
               validation_select estimator_string model_image feature_column_map label_column
               model_params train_params validation_params save load user =
             tf_train kw)"
    by (auto simp add: train_func_def submit_local_train_def)
  show "str_startswith (str_lower estimator_string) ''xgboost'' \<longleftrightarrow>
      (\<exists>p r. estimator_string = p @ r \<and> str_lower p = ''xgboost'')"
    by (rule str_lower_prefix_iff)
  show "str_lower other = str_lower estimator_string \<longrightarrow>
      train_func xgboost_train tf_train other =
      train_func xgboost_train tf_train estimator_string"
    by (simp add: train_func_def)
qed

text \<open>
  With two routines that return \<open>True\<close> and \<open>False\<close>: the names \<open>XGBoost\<close> and
  \<open>xgBoost1\<close> select the first routine, \<open>linear\<close> the second, and \<open>XGBOOST\<close>
  selects what \<open>XGBoost\<close> selects.
\<close>

theorem submit_local_train_selects_witness:
  "str_startswith (str_lower ''XGBoost'') ''xgboost'' \<and>
   submit_local_train (\<lambda>kw w. (Inr True, w)) (\<lambda>kw w. (Inr False, w))
     ''mysql://db'' ''SELECT 1'' ''SELECT 2'' ''SELECT 3'' ''XGBoost'' ''img'' () () () () ()
     ''m1'' [] [] \<lparr>stdout = []\<rparr> = (Inr True, \<lparr>stdout = []\<rparr>) \<and>
   str_startswith (str_lower ''xgBoost1'') ''xgboost'' \<and>
   submit_local_train (\<lambda>kw w. (Inr True, w)) (\<lambda>kw w. (Inr False, w))
     ''mysql://db'' ''SELECT 1'' ''SELECT 2'' ''SELECT 3'' ''xgBoost1'' ''img'' () () () () ()
     ''m1'' [] [] \<lparr>stdout = []\<rparr> = (Inr True, \<lparr>stdout = []\<rparr>) \<and>
   \<not> str_startswith (str_lower ''linear'') ''xgboost'' \<and>
   submit_local_train (\<lambda>kw w. (Inr True, w)) (\<lambda>kw w. (Inr False, w))
     ''mysql://db'' ''SELECT 1'' ''SELECT 2'' ''SELECT 3'' ''linear'' ''img'' () () () () ()
     ''m1'' [] [] \<lparr>stdout = []\<rparr> = (Inr False, \<lparr>stdout = []\<rparr>) \<and>
   str_lower ''XGBOOST'' = str_lower ''XGBoost'' \<and>
   train_func True False ''XGBOOST'' = train_func True False ''XGBoost''"
proof -
  have a: "str_startswith (str_lower ''XGBoost'') ''xgboost''"
    by code_simp
  have b: "str_startswith (str_lower ''xgBoost1'') ''xgboost''"
    by code_simp
  have c: "\<not> str_startswith (str_lower ''linear'') ''xgboost''"
    by code_simp
  have d: "str_lower ''XGBOOST'' = str_lower ''XGBoost''"
    by code_simp
  have a': "submit_local_train (\<lambda>kw w. (Inr True, w)) (\<lambda>kw w. (Inr False, w))
     ''mysql://db'' ''SELECT 1'' ''SELECT 2'' ''SELECT 3'' ''XGBoost'' ''img'' () () () () ()
     ''m1'' [] [] \<lparr>stdout = []\<rparr> = (Inr True, \<lparr>stdout = []\<rparr>)"
    using a submit_local_train_selects
      [where estimator_string = "''XGBoost''" and other = "''XGBoost''"
         and xgboost_train = "\<lambda>(kw :: (unit, unit, unit) train_kwargs) (w :: world). (Inr True, w)"
         and tf_train = "\<lambda>kw w. (Inr False, w)"
         and datasource = "''mysql://db''" and original_sql = "''SELECT 1''"
         and select = "''SELECT 2''" and validation_select = "''SELECT 3''"
         and model_image = "''img''" and feature_column_map = "()" and label_column = "()"
         and model_params = "()" and train_params = "()" and validation_params = "()"
         and save = "''m1''" and load = "[]" and user = "[]"]
    by auto
  have b': "submit_local_train (\<lambda>kw w. (Inr True, w)) (\<lambda>kw w. (Inr False, w))
     ''mysql://db'' ''SELECT 1'' ''SELECT 2'' ''SELECT 3'' ''xgBoost1'' ''img'' () () () () ()
     ''m1'' [] [] \<lparr>stdout = []\<rparr> = (Inr True, \<lparr>stdout = []\<rparr>)"
    using b submit_local_train_selects
      [where estimator_string = "''xgBoost1''" and other = "''xgBoost1''"
         and xgboost_train = "\<lambda>(kw :: (unit, unit, unit) train_kwargs) (w :: world). (Inr True, w)"
         and tf_train = "\<lambda>kw w. (Inr False, w)"
         and datasource = "''mysql://db''" and original_sql = "''SELECT 1''"
         and select = "''SELECT 2''" and validation_select = "''SELECT 3''"
         and model_image = "''img''" and feature_column_map = "()" and label_column = "()"
         and model_params = "()" and train_params = "()" and validation_params = "()"
         and save = "''m1''" and load = "[]" and user = "[]"]
    by auto
  have c': "submit_local_train (\<lambda>kw w. (Inr True, w)) (\<lambda>kw w. (Inr False, w))
     ''mysql://db'' ''SELECT 1'' ''SELECT 2'' ''SELECT 3'' ''linear'' ''img'' () () () () ()
     ''m1'' [] [] \<lparr>stdout = []\<rparr> = (Inr False, \<lparr>stdout = []\<rparr>)"
    using c submit_local_train_selects
      [where estimator_string = "''linear''" and other = "''linear''"
         and xgboost_train = "\<lambda>(kw :: (unit, unit, unit) train_kwargs) (w :: world). (Inr True, w)"
         and tf_train = "\<lambda>kw w. (Inr False, w)"
         and datasource = "''mysql://db''" and original_sql = "''SELECT 1''"
         and select = "''SELECT 2''" and validation_select = "''SELECT 3''"
         and model_image = "''img''" and feature_column_map = "()" and label_column = "()"
         and model_params = "()" and train_params = "()" and validation_params = "()"
         and save = "''m1''" and load = "[]" and user = "[]"]
    by auto
  show ?thesis
    using a a' b b' c c' d by (simp add: train_func_def)
qed

text \<open>
  Claim C3: \<open>submit_local_train\<close> calls the chosen train routine with keyword
  arguments \<open>original_sql\<close>, \<open>model_image\<close>, \<open>estimator_string\<close>, \<open>datasource\<close>,
  \<open>select\<close>, \<open>validation_select\<close>, \<open>model_params\<close>, \<open>train_params\<close>,
  \<open>validation_params\<close>, \<open>feature_column_map\<close>, \<open>label_column\<close>, \<open>save\<close> and
  \<open>load\<close>, each holding the input of the same name, and what the routine does and
  returns is what \<open>submit_local_train\<close> does and returns.
\<close>

theorem submit_local_train_forwards:
  "\<exists>kw. submit_local_train xgboost_train tf_train datasource original_sql select
            validation_select estimator_string model_image feature_column_map label_column
            model_params train_params validation_params save load user w =
          train_func xgboost_train tf_train estimator_string kw w \<and>
        kw_original_sql kw = original_sql \<and>
        kw_model_image kw = model_image \<and>
        kw_estimator_string kw = estimator_string \<and>
        kw_datasource kw = datasource \<and>
        kw_select kw = select \<and>
        kw_validation_select kw = validation_select \<and>
        kw_model_params kw = model_params \<and>
        kw_train_params kw = train_params \<and>
        kw_validation_params kw = validation_params \<and>
        kw_feature_column_map kw = feature_column_map \<and>
        kw_label_column kw = label_column \<and>
        kw_save kw = save \<and>
        kw_load kw = load"
  unfolding submit_local_train_def
  by (intro exI conjI) (rule refl, simp_all)

section \<open>Predict dispatch\<close>

text \<open>
  Claim C7: when the loaded model has the type tag \<open>XGBOOST\<close>, \<open>submit_local_pred\<close>
  calls the predict routine with the arguments \<open>datasource\<close>, \<open>select\<close>,
  \<open>result_table\<close>, \<open>label_column\<close> and the model, in this order, in the world that
  loading the model left. It returns no value: what the routine returns is dropped, and
  an exception of the routine is passed on.
\<close>

theorem submit_local_pred_xgboost:
  assumes "load_from_db reg datasource model_name w = (Inr model, w')"
    and "get_type reg model = XGBOOST reg"
  shows "submit_local_pred reg xgboost_pred datasource original_sql select model_name
           label_column model_params result_table user w =
         discard (xgboost_pred datasource select result_table label_column model w') \<and>
         (\<forall>r w''. xgboost_pred datasource select result_table label_column model w' = (Inr r, w'') \<longrightarrow>
            submit_local_pred reg xgboost_pred datasource original_sql select model_name
              label_column model_params result_table user w = (Inr (), w'')) \<and>
         (\<forall>e w''. xgboost_pred datasource select result_table label_column model w' = (Inl e, w'') \<longrightarrow>
            submit_local_pred reg xgboost_pred datasource original_sql select model_name
              label_column model_params result_table user w = (Inl e, w''))"
  using assms by (simp add: submit_local_pred_def discard_def)

text \<open>
  The stored model \<open>m1\<close> has the tag \<open>XGBOOST\<close>; the logging routine shows the
  arguments in the order in which it received them.
\<close>

theorem submit_local_pred_xgboost_witness:
  "load_from_db example_registry ''mysql://db'' ''m1'' \<lparr>stdout = []\<rparr> =
     (Inr example_m1, \<lparr>stdout = []\<rparr>) \<and>
   get_type example_registry example_m1 = XGBOOST example_registry \<and>
   submit_local_pred example_registry example_xgboost_pred ''mysql://db'' ''SELECT 0''
     ''SELECT * FROM t'' ''m1'' ''class'' () ''result'' [] \<lparr>stdout = []\<rparr> =
     (Inr (), \<lparr>stdout = [''pred'', ''mysql://db'', ''SELECT * FROM t'', ''result'', ''class'']\<rparr>)"
proof -
  have a: "load_from_db example_registry ''mysql://db'' ''m1'' \<lparr>stdout = []\<rparr> =
     (Inr example_m1, \<lparr>stdout = []\<rparr>)"
    by (simp add: example_registry_def memory_registry_def)
  have b: "get_type example_registry example_m1 = XGBOOST example_registry"
    by (simp add: example_registry_def memory_registry_def example_m1_def)
  have c: "example_xgboost_pred ''mysql://db'' ''SELECT * FROM t'' ''result'' ''class''
             example_m1 \<lparr>stdout = []\<rparr> =
           (Inr 0, \<lparr>stdout = [''pred'', ''mysql://db'', ''SELECT * FROM t'', ''result'', ''class'']\<rparr>)"
    by (simp add: example_xgboost_pred_def)
  show ?thesis
    using a b c
      submit_local_pred_xgboost [OF a b, where xgboost_pred = example_xgboost_pred
        and select = "''SELECT * FROM t''" and result_table = "''result''"
        and label_column = "''class''" and original_sql = "''SELECT 0''"
        and model_params = "()" and user = "[]"]
    by (simp add: discard_def)
qed

section \<open>Evaluate dispatch\<close>

text \<open>
  Claim C4: the list of metrics is the value of the key \<open>validation.metrics\<close> split
  on the comma when \<open>model_params\<close> has that key, and \<open>["Accuracy"]\<close> when it has
  not. Split on the comma means: joined with commas the pieces give the value back, and
  no piece contains a comma.
\<close>

theorem validation_metrics_split:
  "(map_of model_params ''validation.metrics'' = Some v \<longrightarrow>
      validation_metrics model_params = str_split v CHR '','' \<and>
      str_join CHR '','' (validation_metrics model_params) = v \<and>
      (\<forall>m \<in> set (validation_metrics model_params). CHR '','' \<notin> set m)) \<and>
   (map_of model_params ''validation.metrics'' = None \<longrightarrow>
      validation_metrics model_params = [''Accuracy''])"
proof (intro conjI impI)
  assume "map_of model_params ''validation.metrics'' = Some v"
  then have eq: "validation_metrics model_params = str_split v CHR '',''"
    by (simp add: validation_metrics_def dict_get_def)
  show "validation_metrics model_params = str_split v CHR '',''"
    by (rule eq)
  show "str_join CHR '','' (validation_metrics model_params) = v"
    by (simp add: eq str_join_str_split)
  show "\<forall>m \<in> set (validation_metrics model_params). CHR '','' \<notin> set m"
    by (auto simp add: eq dest: str_split_no_sep)
next
  assume "map_of model_params ''validation.metrics'' = None"
  then show "validation_metrics model_params = [''Accuracy'']"
    by (simp add: validation_metrics_def dict_get_def str_split_def)
qed

text \<open>
  The value \<open>Accuracy,F1\<close> gives the two metrics \<open>Accuracy\<close> and \<open>F1\<close>, and a
  dictionary without the key gives \<open>Accuracy\<close> alone.
\<close>

theorem validation_metrics_split_witness:
  "map_of [(''validation.metrics'', ''Accuracy,F1'')] ''validation.metrics'' = Some ''Accuracy,F1'' \<and>
   validation_metrics [(''validation.metrics'', ''Accuracy,F1'')] = [''Accuracy'', ''F1''] \<and>
   map_of [(''n_classes'', ''3'')] ''validation.metrics'' = None \<and>
   validation_metrics [(''n_classes'', ''3'')] = [''Accuracy'']"
proof -
  have a: "map_of [(''validation.metrics'', ''Accuracy,F1'')] ''validation.metrics'' = Some ''Accuracy,F1''"
    by simp
  have b: "map_of [(''n_classes'', ''3'')] ''validation.metrics'' = None"
    by simp
  have c: "str_split ''Accuracy,F1'' CHR '','' = [''Accuracy'', ''F1'']"
    by (simp add: str_split_def)
  show ?thesis
    using a b c
      validation_metrics_split [of "[(''validation.metrics'', ''Accuracy,F1'')]" "''Accuracy,F1''"]
      validation_metrics_split [of "[(''n_classes'', ''3'')]" "''x''"]
    by simp
qed

text \<open>
  Claim C10: the default \<open>Accuracy\<close> is used only when the key
  \<open>validation.metrics\<close> is absent. When the key is there with the empty text as its
  value, the list of metrics is the one empty name, not \<open>["Accuracy"]\<close>.
\<close>

theorem validation_metrics_empty_value:
  "map_of model_params ''validation.metrics'' = Some [] \<Longrightarrow>
     validation_metrics model_params = [[]] \<and>
     validation_metrics model_params \<noteq> [''Accuracy'']"
  by (simp add: validation_metrics_def dict_get_def str_split_def)

text \<open>
  The dictionary whose only item is the key with the empty text.
\<close>

theorem validation_metrics_empty_value_witness:
  "map_of [(''validation.metrics'', [])] ''validation.metrics'' = Some [] \<and>
   validation_metrics [(''validation.metrics'', [])] = [[]] \<and>
   validation_metrics [(''validation.metrics'', [])] \<noteq> [''Accuracy'']"
proof -
  have a: "map_of [(''validation.metrics'', [])] ''validation.metrics'' = Some ([] :: string)"
    by simp
  show ?thesis
    using a validation_metrics_empty_value [OF a] by simp
qed

text \<open>
  Claim C8: when the entry \<open>label\<close> of the loaded model's metadata is not a feature
  column, \<open>submit_local_evaluate\<close> fails with \<open>AssertionError\<close>. When it is a feature
  column, the label name passed to the evaluate routine is the name of its first field
  descriptor.
\<close>

theorem submit_local_evaluate_label:
  assumes "load_from_db reg datasource model_name w = (Inr model, w')"
  shows "(\<not> isinstance_FeatureColumn (get_meta reg model ''label'') \<longrightarrow>
            submit_local_evaluate reg xgboost_evaluate datasource original_sql select model_name
              model_params result_table user w = (Inl AssertionError, w')) \<and>
         (\<forall>fd fds. get_meta reg model ''label'' = PyFeatureColumn (FeatureColumn (fd # fds)) \<and>
              get_type reg model = XGBOOST reg \<longrightarrow>
            submit_local_evaluate reg xgboost_evaluate datasource original_sql select model_name
              model_params result_table user w =
            discard (xgboost_evaluate datasource select result_table model (name fd)
                       (validation_metrics model_params) w'))"
proof (intro conjI allI impI)
  assume "\<not> isinstance_FeatureColumn (get_meta reg model ''label'')"
  then show "submit_local_evaluate reg xgboost_evaluate datasource original_sql select model_name
              model_params result_table user w = (Inl AssertionError, w')"
    using assms
    by (cases "get_meta reg model ''label''") (simp_all add: submit_local_evaluate_def)
next
  fix fd fds
  assume "get_meta reg model ''label'' = PyFeatureColumn (FeatureColumn (fd # fds)) \<and>
          get_type reg model = XGBOOST reg"
  then show "submit_local_evaluate reg xgboost_evaluate datasource original_sql select model_name
              model_params result_table user w =
            discard (xgboost_evaluate datasource select result_table model (name fd)
                       (validation_metrics model_params) w')"
    using assms by (simp add: submit_local_evaluate_def pred_label_name_def)
qed

text \<open>
  The stored model \<open>m3\<close> has no \<open>label\<close> entry; \<open>m1\<close> has the tag \<open>XGBOOST\<close>
  and a label column whose first field is \<open>class\<close>.
\<close>

theorem submit_local_evaluate_label_witness:
  "load_from_db example_registry ''mysql://db'' ''m3'' \<lparr>stdout = []\<rparr> =
     (Inr example_m3, \<lparr>stdout = []\<rparr>) \<and>
   \<not> isinstance_FeatureColumn (get_meta example_registry example_m3 ''label'') \<and>
   submit_local_evaluate example_registry example_xgboost_evaluate ''mysql://db'' ''SELECT 0''
     ''SELECT * FROM t'' ''m3'' [] ''result'' [] \<lparr>stdout = []\<rparr> =
     (Inl AssertionError, \<lparr>stdout = []\<rparr>) \<and>
   load_from_db example_registry ''mysql://db'' ''m1'' \<lparr>stdout = []\<rparr> =
     (Inr example_m1, \<lparr>stdout = []\<rparr>) \<and>
   get_meta example_registry example_m1 ''label'' =
     PyFeatureColumn (FeatureColumn [\<lparr>name = ''class''\<rparr>]) \<and>
   get_type example_registry example_m1 = XGBOOST example_registry \<and>
   submit_local_evaluate example_registry example_xgboost_evaluate ''mysql://db'' ''SELECT 0''
     ''SELECT * FROM t'' ''m1'' [(''validation.metrics'', ''Accuracy,F1'')] ''result'' []
     \<lparr>stdout = []\<rparr> =
     (Inr (), \<lparr>stdout = [''evaluate'', ''mysql://db'', ''SELECT * FROM t'', ''result'',
                            ''class'', ''Accuracy'', ''F1'']\<rparr>)"
proof -
  have a: "load_from_db example_registry ''mysql://db'' ''m3'' \<lparr>stdout = []\<rparr> =
     (Inr example_m3, \<lparr>stdout = []\<rparr>)"
    by (simp add: example_registry_def memory_registry_def)
  have b: "\<not> isinstance_FeatureColumn (get_meta example_registry example_m3 ''label'')"
    by (simp add: example_registry_def memory_registry_def example_m3_def dict_get_def)
  have c: "load_from_db example_registry ''mysql://db'' ''m1'' \<lparr>stdout = []\<rparr> =
     (Inr example_m1, \<lparr>stdout = []\<rparr>)"
    by (simp add: example_registry_def memory_registry_def)
  have d: "get_meta example_registry example_m1 ''label'' =
     PyFeatureColumn (FeatureColumn [\<lparr>name = ''class''\<rparr>])"
    by (simp add: example_registry_def memory_registry_def example_m1_def dict_get_def)
  have e: "get_type example_registry example_m1 = XGBOOST example_registry"
    by (simp add: example_registry_def memory_registry_def example_m1_def)
  have f: "validation_metrics [(''validation.metrics'', ''Accuracy,F1'')] = [''Accuracy'', ''F1'']"
    by (simp add: validation_metrics_def dict_get_def str_split_def)
  have g: "submit_local_evaluate example_registry example_xgboost_evaluate ''mysql://db''
     ''SELECT 0'' ''SELECT * FROM t'' ''m3'' [] ''result'' [] \<lparr>stdout = []\<rparr> =
     (Inl AssertionError, \<lparr>stdout = []\<rparr>)"
    using b submit_local_evaluate_label [OF a, where xgboost_evaluate = example_xgboost_evaluate
        and original_sql = "''SELECT 0''" and select = "''SELECT * FROM t''"
        and model_params = "[]" and result_table = "''result''" and user = "[]"]
    by blast
  have "submit_local_evaluate example_registry example_xgboost_evaluate ''mysql://db''
     ''SELECT 0'' ''SELECT * FROM t'' ''m1'' [(''validation.metrics'', ''Accuracy,F1'')]
     ''result'' [] \<lparr>stdout = []\<rparr> =
     discard (example_xgboost_evaluate ''mysql://db'' ''SELECT * FROM t'' ''result'' example_m1
       (name \<lparr>name = ''class''\<rparr>) (validation_metrics [(''validation.metrics'', ''Accuracy,F1'')])
       \<lparr>stdout = []\<rparr>)"
    using d e submit_local_evaluate_label [OF c, where xgboost_evaluate = example_xgboost_evaluate
        and original_sql = "''SELECT 0''" and select = "''SELECT * FROM t''"
        and model_params = "[(''validation.metrics'', ''Accuracy,F1'')]"
        and result_table = "''result''" and user = "[]"]
    by blast
  then have h: "submit_local_evaluate example_registry example_xgboost_evaluate ''mysql://db''
     ''SELECT 0'' ''SELECT * FROM t'' ''m1'' [(''validation.metrics'', ''Accuracy,F1'')]
     ''result'' [] \<lparr>stdout = []\<rparr> =
     (Inr (), \<lparr>stdout = [''evaluate'', ''mysql://db'', ''SELECT * FROM t'', ''result'',
                            ''class'', ''Accuracy'', ''F1'']\<rparr>)"
    by (simp add: f discard_def example_xgboost_evaluate_def)
  show ?thesis
    using a b c d e g h by simp
qed

section \<open>Explain dispatch\<close>

text \<open>
  Claim C5: the summary dictionary has exactly one entry for each key of
  \<open>model_params\<close> that starts with \<open>summary.\<close>, under that key without its leading
  \<open>summary.\<close>, and with the same value. For the keys \<open>summary.plot_type\<close> and
  \<open>other\<close> the source gives the one entry \<open>plot_type\<close>, but it does not do this for
  every key: it
  forms the new key with \<open>k.replace("summary.", "")\<close>, which removes every occurrence
  of \<open>summary.\<close> and not only the leading one. The key
  \<open>summary.summary.plot_type\<close> becomes \<open>plot_type\<close> instead of
  \<open>summary.plot_type\<close>, the two keys \<open>summary.summary.x\<close> and \<open>summary.x\<close> end in
  the one entry \<open>x\<close>, and this is the dictionary that the explain routine receives.
\<close>

theorem summary_params_replace_all:
  "summary_params_of [(''summary.plot_type'', ''bar''), (''other'', ''x'')] =
     Inr [(''plot_type'', ''bar'')] \<and>
   summary_params_of [(''summary.summary.plot_type'', ''bar'')] = Inr [(''plot_type'', ''bar'')] \<and>
   summary_params_of [(''summary.summary.plot_type'', ''bar'')] \<noteq>
     Inr [(''summary.plot_type'', ''bar'')] \<and>
   summary_params_of [(''summary.summary.x'', ''1''), (''summary.x'', ''2'')] = Inr [(''x'', ''2'')] \<and>
   submit_local_explain example_registry example_xgboost_explain ''mysql://db'' ''SELECT 0''
     ''SELECT * FROM t'' ''m1'' [(''summary.summary.plot_type'', ''bar'')] ''result''
     ''TreeExplainer'' [] \<lparr>stdout = []\<rparr> =
     (Inr (), \<lparr>stdout = [''explain'', ''mysql://db'', ''SELECT * FROM t'', ''TreeExplainer'',
                            ''result'', ''plot_type'']\<rparr>)"
proof -
  have a: "summary_params_of [(''summary.summary.plot_type'', ''bar'')] =
           Inr [(''plot_type'', ''bar'')]"
    by code_simp
  have b: "summary_params_of [(''summary.summary.x'', ''1''), (''summary.x'', ''2'')] =
           Inr [(''x'', ''2'')]"
    by code_simp
  have d: "summary_params_of [(''summary.plot_type'', ''bar''), (''other'', ''x'')] =
           Inr [(''plot_type'', ''bar'')]"
    by code_simp
  have c: "submit_local_explain example_registry example_xgboost_explain ''mysql://db''
     ''SELECT 0'' ''SELECT * FROM t'' ''m1'' [(''summary.summary.plot_type'', ''bar'')] ''result''
     ''TreeExplainer'' [] \<lparr>stdout = []\<rparr> =
     (Inr (), \<lparr>stdout = [''explain'', ''mysql://db'', ''SELECT * FROM t'', ''TreeExplainer'',
                            ''result'', ''plot_type'']\<rparr>)"
    by (simp add: submit_local_explain_def a example_registry_def memory_registry_def
        example_m1_def example_xgboost_explain_def discard_def dict_keys_def)
  show ?thesis
    using a b c d by simp
qed

section \<open>Models of another type\<close>

text \<open>
  Claim C2, as stated: for every loaded model whose type tag is not \<open>XGBOOST\<close>, each
  of \<open>submit_local_pred\<close>, \<open>submit_local_evaluate\<close> and \<open>submit_local_explain\<close>
  raises \<open>NotImplementedError\<close>. This fails for \<open>submit_local_evaluate\<close>, which checks
  the label column before it looks at the type tag: the stored model \<open>m3\<close> has the tag
  \<open>TENSORFLOW\<close> and no \<open>label\<close> entry, and evaluating it raises
  \<open>AssertionError\<close>.
\<close>

theorem evaluate_assertion_before_type_check:
  "load_from_db example_registry ''mysql://db'' ''m3'' \<lparr>stdout = []\<rparr> =
     (Inr example_m3, \<lparr>stdout = []\<rparr>) \<and>
   get_type example_registry example_m3 \<noteq> XGBOOST example_registry \<and>
   submit_local_evaluate example_registry example_xgboost_evaluate ''mysql://db'' ''SELECT 0''
     ''SELECT * FROM t'' ''m3'' [] ''result'' [] \<lparr>stdout = []\<rparr> =
     (Inl AssertionError, \<lparr>stdout = []\<rparr>)"
  by (simp add: submit_local_evaluate_def example_registry_def memory_registry_def
      example_m3_def dict_get_def)

text \<open>
  Claim C2, amended: for every loaded model whose type tag is not \<open>XGBOOST\<close>,
  \<open>submit_local_pred\<close> and \<open>submit_local_explain\<close> raise \<open>NotImplementedError\<close>
  with the message \<open>not implemented model type: \<close> followed by the text of the tag,
  and \<open>submit_local_evaluate\<close> does so when the \<open>label\<close> entry of the metadata is a
  feature column with at least one field descriptor. When that entry is not a feature
  column \<open>submit_local_evaluate\<close> raises \<open>AssertionError\<close>, and when it is a
  feature column without field descriptors it raises \<open>IndexError\<close>.
\<close>

theorem not_xgboost_not_implemented:
  assumes "load_from_db reg datasource model_name w = (Inr model, w')"
    and "get_type reg model \<noteq> XGBOOST reg"
  shows "submit_local_pred reg xgboost_pred datasource original_sql select model_name
           label_column pred_params result_table user w =
         (Inl (NotImplementedError
                 (''not implemented model type: '' @ format_type reg (get_type reg model))), w') \<and>
         submit_local_explain reg xgboost_explain datasource original_sql select model_name
           explain_params result_table explainer user w =
         (Inl (NotImplementedError
                 (''not implemented model type: '' @ format_type reg (get_type reg model))), w') \<and>
         (\<forall>fd fds. get_meta reg model ''label'' = PyFeatureColumn (FeatureColumn (fd # fds)) \<longrightarrow>
            submit_local_evaluate reg xgboost_evaluate datasource original_sql select model_name
              model_params result_table user w =
            (Inl (NotImplementedError
                    (''not implemented model type: '' @ format_type reg (get_type reg model))), w')) \<and>
         (\<not> isinstance_FeatureColumn (get_meta reg model ''label'') \<longrightarrow>
            submit_local_evaluate reg xgboost_evaluate datasource original_sql select model_name
              model_params result_table user w = (Inl AssertionError, w')) \<and>
         (get_meta reg model ''label'' = PyFeatureColumn (FeatureColumn []) \<longrightarrow>
            submit_local_evaluate reg xgboost_evaluate datasource original_sql select model_name
              model_params result_table user w = (Inl IndexError, w'))"
proof (intro conjI allI impI)
  show "submit_local_pred reg xgboost_pred datasource original_sql select model_name
           label_column pred_params result_table user w =
         (Inl (NotImplementedError
                 (''not implemented model type: '' @ format_type reg (get_type reg model))), w')"
    using assms by (simp add: submit_local_pred_def not_implemented_def)
next
  obtain summary_params where "summary_params_of explain_params = Inr summary_params"
    using summary_params_of_returns [of explain_params] by blast
  then show "submit_local_explain reg xgboost_explain datasource original_sql select model_name
           explain_params result_table explainer user w =
         (Inl (NotImplementedError
                 (''not implemented model type: '' @ format_type reg (get_type reg model))), w')"
    using assms by (simp add: submit_local_explain_def not_implemented_def)
next
  fix fd fds
  assume "get_meta reg model ''label'' = PyFeatureColumn (FeatureColumn (fd # fds))"
  then show "submit_local_evaluate reg xgboost_evaluate datasource original_sql select model_name
              model_params result_table user w =
            (Inl (NotImplementedError
                    (''not implemented model type: '' @ format_type reg (get_type reg model))), w')"
    using assms
    by (simp add: submit_local_evaluate_def pred_label_name_def not_implemented_def)
next
  assume "\<not> isinstance_FeatureColumn (get_meta reg model ''label'')"
  then show "submit_local_evaluate reg xgboost_evaluate datasource original_sql select model_name
              model_params result_table user w = (Inl AssertionError, w')"
    using assms
    by (cases "get_meta reg model ''label''") (simp_all add: submit_local_evaluate_def)
next
  assume "get_meta reg model ''label'' = PyFeatureColumn (FeatureColumn [])"
  then show "submit_local_evaluate reg xgboost_evaluate datasource original_sql select model_name
              model_params result_table user w = (Inl IndexError, w')"
    using assms by (simp add: submit_local_evaluate_def pred_label_name_def)
qed

text \<open>
  The stored models \<open>m2\<close>, \<open>m3\<close> and \<open>m4\<close> have the tag \<open>TENSORFLOW\<close>:
  \<open>m2\<close> with a label column, \<open>m3\<close> without a \<open>label\<close> entry, and \<open>m4\<close> with a
  label column that has no field.
\<close>

theorem not_xgboost_not_implemented_witness:
  "load_from_db example_registry ''mysql://db'' ''m2'' \<lparr>stdout = []\<rparr> =
     (Inr example_m2, \<lparr>stdout = []\<rparr>) \<and>
   get_type example_registry example_m2 \<noteq> XGBOOST example_registry \<and>
   get_meta example_registry example_m2 ''label'' =
     PyFeatureColumn (FeatureColumn [\<lparr>name = ''class''\<rparr>]) \<and>
   submit_local_pred example_registry example_xgboost_pred ''mysql://db'' ''SELECT 0''
     ''SELECT * FROM t'' ''m2'' ''class'' () ''result'' [] \<lparr>stdout = []\<rparr> =
     (Inl (NotImplementedError ''not implemented model type: TENSORFLOW''), \<lparr>stdout = []\<rparr>) \<and>
   submit_local_explain example_registry example_xgboost_explain ''mysql://db'' ''SELECT 0''
     ''SELECT * FROM t'' ''m2'' [(''summary.plot_type'', ''bar'')] ''result'' ''TreeExplainer'' []
     \<lparr>stdout = []\<rparr> =
     (Inl (NotImplementedError ''not implemented model type: TENSORFLOW''), \<lparr>stdout = []\<rparr>) \<and>
   submit_local_evaluate example_registry example_xgboost_evaluate ''mysql://db'' ''SELECT 0''
     ''SELECT * FROM t'' ''m2'' [] ''result'' [] \<lparr>stdout = []\<rparr> =
     (Inl (NotImplementedError ''not implemented model type: TENSORFLOW''), \<lparr>stdout = []\<rparr>) \<and>
   load_from_db example_registry ''mysql://db'' ''m3'' \<lparr>stdout = []\<rparr> =
     (Inr example_m3, \<lparr>stdout = []\<rparr>) \<and>
   get_type example_registry example_m3 \<noteq> XGBOOST example_registry \<and>
   \<not> isinstance_FeatureColumn (get_meta example_registry example_m3 ''label'') \<and>
   submit_local_evaluate example_registry example_xgboost_evaluate ''mysql://db'' ''SELECT 0''
     ''SELECT * FROM t'' ''m3'' [] ''result'' [] \<lparr>stdout = []\<rparr> =
     (Inl AssertionError, \<lparr>stdout = []\<rparr>) \<and>
   load_from_db example_registry ''mysql://db'' ''m4'' \<lparr>stdout = []\<rparr> =
     (Inr example_m4, \<lparr>stdout = []\<rparr>) \<and>
   get_type example_registry example_m4 \<noteq> XGBOOST example_registry \<and>
   get_meta example_registry example_m4 ''label'' = PyFeatureColumn (FeatureColumn []) \<and>
   submit_local_evaluate example_registry example_xgboost_evaluate ''mysql://db'' ''SELECT 0''
     ''SELECT * FROM t'' ''m4'' [] ''result'' [] \<lparr>stdout = []\<rparr> =
     (Inl IndexError, \<lparr>stdout = []\<rparr>)"
proof -
  have l2: "load_from_db example_registry ''mysql://db'' ''m2'' \<lparr>stdout = []\<rparr> =
     (Inr example_m2, \<lparr>stdout = []\<rparr>)"
    by (simp add: example_registry_def memory_registry_def)
  have t2: "get_type example_registry example_m2 \<noteq> XGBOOST example_registry"
    by (simp add: example_registry_def memory_registry_def example_m2_def)
  have m2: "get_meta example_registry example_m2 ''label'' =
     PyFeatureColumn (FeatureColumn [\<lparr>name = ''class''\<rparr>])"
    by (simp add: example_registry_def memory_registry_def example_m2_def dict_get_def)
  have f2: "format_type example_registry (get_type example_registry example_m2) = ''TENSORFLOW''"
    by (simp add: example_registry_def memory_registry_def example_m2_def)
  have l3: "load_from_db example_registry ''mysql://db'' ''m3'' \<lparr>stdout = []\<rparr> =
     (Inr example_m3, \<lparr>stdout = []\<rparr>)"
    by (simp add: example_registry_def memory_registry_def)
  have t3: "get_type example_registry example_m3 \<noteq> XGBOOST example_registry"
    by (simp add: example_registry_def memory_registry_def example_m3_def)
  have m3: "\<not> isinstance_FeatureColumn (get_meta example_registry example_m3 ''label'')"
    by (simp add: example_registry_def memory_registry_def example_m3_def dict_get_def)
  have l4: "load_from_db example_registry ''mysql://db'' ''m4'' \<lparr>stdout = []\<rparr> =
     (Inr example_m4, \<lparr>stdout = []\<rparr>)"
    by (simp add: example_registry_def memory_registry_def)
  have t4: "get_type example_registry example_m4 \<noteq> XGBOOST example_registry"
    by (simp add: example_registry_def memory_registry_def example_m4_def)
  have m4: "get_meta example_registry example_m4 ''label'' = PyFeatureColumn (FeatureColumn [])"
    by (simp add: example_registry_def memory_registry_def example_m4_def dict_get_def)
  note r2 = not_xgboost_not_implemented [OF l2 t2, where xgboost_pred = example_xgboost_pred
      and xgboost_explain = example_xgboost_explain and xgboost_evaluate = example_xgboost_evaluate
      and original_sql = "''SELECT 0''" and select = "''SELECT * FROM t''"
      and label_column = "''class''" and pred_params = "()" and result_table = "''result''"
      and user = "[]" and explain_params = "[(''summary.plot_type'', ''bar'')]"
      and explainer = "''TreeExplainer''" and model_params = "[]"]
  note r3 = not_xgboost_not_implemented [OF l3 t3, where xgboost_pred = example_xgboost_pred
      and xgboost_explain = example_xgboost_explain and xgboost_evaluate = example_xgboost_evaluate
      and original_sql = "''SELECT 0''" and select = "''SELECT * FROM t''"
      and label_column = "''class''" and pred_params = "()" and result_table = "''result''"
      and user = "[]" and explain_params = "[(''summary.plot_type'', ''bar'')]"
      and explainer = "''TreeExplainer''" and model_params = "[]"]
  note r4 = not_xgboost_not_implemented [OF l4 t4, where xgboost_pred = example_xgboost_pred
      and xgboost_explain = example_xgboost_explain and xgboost_evaluate = example_xgboost_evaluate
      and original_sql = "''SELECT 0''" and select = "''SELECT * FROM t''"
      and label_column = "''class''" and pred_params = "()" and result_table = "''result''"
      and user = "[]" and explain_params = "[(''summary.plot_type'', ''bar'')]"
      and explainer = "''TreeExplainer''" and model_params = "[]"]
  have p2: "submit_local_pred example_registry example_xgboost_pred ''mysql://db'' ''SELECT 0''
     ''SELECT * FROM t'' ''m2'' ''class'' () ''result'' [] \<lparr>stdout = []\<rparr> =
     (Inl (NotImplementedError ''not implemented model type: TENSORFLOW''), \<lparr>stdout = []\<rparr>)"
    using r2 f2 by simp
  have x2: "submit_local_explain example_registry example_xgboost_explain ''mysql://db''
     ''SELECT 0'' ''SELECT * FROM t'' ''m2'' [(''summary.plot_type'', ''bar'')] ''result''
     ''TreeExplainer'' [] \<lparr>stdout = []\<rparr> =
     (Inl (NotImplementedError ''not implemented model type: TENSORFLOW''), \<lparr>stdout = []\<rparr>)"
    using r2 f2 by simp
  have e2: "submit_local_evaluate example_registry example_xgboost_evaluate ''mysql://db''
     ''SELECT 0'' ''SELECT * FROM t'' ''m2'' [] ''result'' [] \<lparr>stdout = []\<rparr> =
     (Inl (NotImplementedError ''not implemented model type: TENSORFLOW''), \<lparr>stdout = []\<rparr>)"
    using r2 f2 m2 by simp
  have e3: "submit_local_evaluate example_registry example_xgboost_evaluate ''mysql://db''
     ''SELECT 0'' ''SELECT * FROM t'' ''m3'' [] ''result'' [] \<lparr>stdout = []\<rparr> =
     (Inl AssertionError, \<lparr>stdout = []\<rparr>)"
    using r3 m3 by blast
  have e4: "submit_local_evaluate example_registry example_xgboost_evaluate ''mysql://db''
     ''SELECT 0'' ''SELECT * FROM t'' ''m4'' [] ''result'' [] \<lparr>stdout = []\<rparr> =
     (Inl IndexError, \<lparr>stdout = []\<rparr>)"
    using r4 m4 by blast
  show ?thesis
    using l2 t2 m2 p2 x2 e2 l3 t3 m3 e3 l4 t4 m4 e4 by blast
qed

section \<open>Show train\<close>

text \<open>
  Claim C6: when the metadata read for the model has no \<open>original_sql\<close> entry, or
  an empty one (a value that Python takes as false, the empty text among them),
  \<open>submit_local_show_train\<close> raises \<open>ValueError\<close>. Otherwise it builds the one row
  of the model name and the statement, with the header \<open>Model\<close>,
  \<open>Train Statement\<close>, passes both to the writer and prints every line the writer
  gives, in order, returning no value.
\<close>

theorem submit_local_show_train_result:
  assumes "read_metadata_from_db reg datasource model_name w = (Inr meta, w')"
  shows "(map_of meta ''original_sql'' = None \<longrightarrow>
            submit_local_show_train reg dump_strings datasource model_name w =
            (Inl (ValueError ''cannot find the train SQL statement''), w')) \<and>
         (\<forall>v. map_of meta ''original_sql'' = Some v \<and> \<not> truthy v \<longrightarrow>
            submit_local_show_train reg dump_strings datasource model_name w =
            (Inl (ValueError ''cannot find the train SQL statement''), w')) \<and>
         (map_of meta ''original_sql'' = Some (PyStr []) \<longrightarrow>
            submit_local_show_train reg dump_strings datasource model_name w =
            (Inl (ValueError ''cannot find the train SQL statement''), w')) \<and>
         (\<forall>v. map_of meta ''original_sql'' = Some v \<and> truthy v \<longrightarrow>
            submit_local_show_train reg dump_strings datasource model_name w =
            (Inr (), w'\<lparr>stdout := stdout w' @
               dump_strings [(model_name, v)] [''Model'', ''Train Statement'']\<rparr>)) \<and>
         (\<forall>s. map_of meta ''original_sql'' = Some (PyStr s) \<and> s \<noteq> [] \<longrightarrow>
            submit_local_show_train reg dump_strings datasource model_name w =
            (Inr (), w'\<lparr>stdout := stdout w' @
               dump_strings [(model_name, PyStr s)] [''Model'', ''Train Statement'']\<rparr>))"
  using assms
  by (simp add: submit_local_show_train_def dict_get_def print_lines_stdout)

text \<open>
  The stored model \<open>m1\<close> has the statement \<open>SELECT * FROM t\<close>, \<open>m2\<close> has the empty
  text as its statement and \<open>m3\<close> has none.
\<close>

theorem submit_local_show_train_result_witness:
  "read_metadata_from_db example_registry ''mysql://db'' ''m1'' \<lparr>stdout = []\<rparr> =
     (Inr (model_meta example_m1), \<lparr>stdout = []\<rparr>) \<and>
   map_of (model_meta example_m1) ''original_sql'' = Some (PyStr ''SELECT * FROM t'') \<and>
   truthy (PyStr ''SELECT * FROM t'') \<and>
   submit_local_show_train example_registry example_dump_strings ''mysql://db'' ''m1''
     \<lparr>stdout = []\<rparr> =
     (Inr (), \<lparr>stdout = [''Model'', ''Train Statement'', ''m1'', ''SELECT * FROM t'']\<rparr>) \<and>
   read_metadata_from_db example_registry ''mysql://db'' ''m2'' \<lparr>stdout = []\<rparr> =
     (Inr (model_meta example_m2), \<lparr>stdout = []\<rparr>) \<and>
   map_of (model_meta example_m2) ''original_sql'' = Some (PyStr []) \<and>
   \<not> truthy (PyStr []) \<and>
   submit_local_show_train example_registry example_dump_strings ''mysql://db'' ''m2''
     \<lparr>stdout = []\<rparr> =
     (Inl (ValueError ''cannot find the train SQL statement''), \<lparr>stdout = []\<rparr>) \<and>
   read_metadata_from_db example_registry ''mysql://db'' ''m3'' \<lparr>stdout = []\<rparr> =
     (Inr (model_meta example_m3), \<lparr>stdout = []\<rparr>) \<and>
   map_of (model_meta example_m3) ''original_sql'' = None \<and>
   submit_local_show_train example_registry example_dump_strings ''mysql://db'' ''m3''
     \<lparr>stdout = []\<rparr> =
     (Inl (ValueError ''cannot find the train SQL statement''), \<lparr>stdout = []\<rparr>)"
proof -
  have r1: "read_metadata_from_db example_registry ''mysql://db'' ''m1'' \<lparr>stdout = []\<rparr> =
     (Inr (model_meta example_m1), \<lparr>stdout = []\<rparr>)"
    by (simp add: example_registry_def memory_registry_def)
  have s1: "map_of (model_meta example_m1) ''original_sql'' = Some (PyStr ''SELECT * FROM t'')"
    by (simp add: example_m1_def)
  have t1: "truthy (PyStr ''SELECT * FROM t'')"
    by simp
  have d1: "example_dump_strings [(''m1'', PyStr ''SELECT * FROM t'')] [''Model'', ''Train Statement'']
      = [''Model'', ''Train Statement'', ''m1'', ''SELECT * FROM t'']"
    by (simp add: example_dump_strings_def)
  have r2: "read_metadata_from_db example_registry ''mysql://db'' ''m2'' \<lparr>stdout = []\<rparr> =
     (Inr (model_meta example_m2), \<lparr>stdout = []\<rparr>)"
    by (simp add: example_registry_def memory_registry_def)
  have s2: "map_of (model_meta example_m2) ''original_sql'' = Some (PyStr [])"
    by (simp add: example_m2_def)
  have t2: "\<not> truthy (PyStr [])"
    by simp
  have r3: "read_metadata_from_db example_registry ''mysql://db'' ''m3'' \<lparr>stdout = []\<rparr> =
     (Inr (model_meta example_m3), \<lparr>stdout = []\<rparr>)"
    by (simp add: example_registry_def memory_registry_def)
  have s3: "map_of (model_meta example_m3) ''original_sql'' = None"
    by (simp add: example_m3_def)
  have "submit_local_show_train example_registry example_dump_strings ''mysql://db'' ''m1''
     \<lparr>stdout = []\<rparr> =
     (Inr (), \<lparr>stdout = []\<rparr>\<lparr>stdout := stdout \<lparr>stdout = []\<rparr> @
        example_dump_strings [(''m1'', PyStr ''SELECT * FROM t'')] [''Model'', ''Train Statement'']\<rparr>)"
    using s1 t1 submit_local_show_train_result [OF r1, where dump_strings = example_dump_strings]
    by blast
  then have c1: "submit_local_show_train example_registry example_dump_strings ''mysql://db''
     ''m1'' \<lparr>stdout = []\<rparr> =
     (Inr (), \<lparr>stdout = [''Model'', ''Train Statement'', ''m1'', ''SELECT * FROM t'']\<rparr>)"
    by (simp add: d1)
  have c2: "submit_local_show_train example_registry example_dump_strings ''mysql://db'' ''m2''
     \<lparr>stdout = []\<rparr> =
     (Inl (ValueError ''cannot find the train SQL statement''), \<lparr>stdout = []\<rparr>)"
    using s2 t2 submit_local_show_train_result [OF r2, where dump_strings = example_dump_strings]
    by blast
  have c3: "submit_local_show_train example_registry example_dump_strings ''mysql://db'' ''m3''
     \<lparr>stdout = []\<rparr> =
     (Inl (ValueError ''cannot find the train SQL statement''), \<lparr>stdout = []\<rparr>)"
    using s3 submit_local_show_train_result [OF r3, where dump_strings = example_dump_strings]
    by blast
  show ?thesis
    using r1 s1 t1 c1 r2 s2 t2 c2 r3 s3 c3 by blast
qed

text \<open>
  Claim C9: two calls of \<open>submit_local_show_train\<close> with the same datasource and
  model name, in two worlds in which the registry gives the same metadata, end alike
  (both raise the same exception or both return) and print the same lines.
\<close>

theorem submit_local_show_train_deterministic:
  assumes "read_metadata_from_db reg datasource model_name w1 = (Inr meta, w1')"
    and "read_metadata_from_db reg datasource model_name w2 = (Inr meta, w2')"
  shows "fst (submit_local_show_train reg dump_strings datasource model_name w1) =
         fst (submit_local_show_train reg dump_strings datasource model_name w2) \<and>
         (\<exists>lines.
            stdout (snd (submit_local_show_train reg dump_strings datasource model_name w1)) =
              stdout w1' @ lines \<and>
            stdout (snd (submit_local_show_train reg dump_strings datasource model_name w2)) =
              stdout w2' @ lines)"
proof (cases "truthy (dict_get meta ''original_sql'' PyNone)")
  case True
  with assms show ?thesis
    by (simp add: submit_local_show_train_def print_lines_stdout)
next
  case False
  with assms show ?thesis
    by (simp add: submit_local_show_train_def)
qed

text \<open>
  The call is repeated in the world that the first call left: the same four lines are
  printed again.
\<close>

theorem submit_local_show_train_deterministic_witness:
  "read_metadata_from_db example_registry ''mysql://db'' ''m1'' \<lparr>stdout = []\<rparr> =
     (Inr (model_meta example_m1), \<lparr>stdout = []\<rparr>) \<and>
   read_metadata_from_db example_registry ''mysql://db'' ''m1''
     \<lparr>stdout = [''Model'', ''Train Statement'', ''m1'', ''SELECT * FROM t'']\<rparr> =
     (Inr (model_meta example_m1),
      \<lparr>stdout = [''Model'', ''Train Statement'', ''m1'', ''SELECT * FROM t'']\<rparr>) \<and>
   submit_local_show_train example_registry example_dump_strings ''mysql://db'' ''m1''
     \<lparr>stdout = []\<rparr> =
     (Inr (), \<lparr>stdout = [''Model'', ''Train Statement'', ''m1'', ''SELECT * FROM t'']\<rparr>) \<and>
   fst (submit_local_show_train example_registry example_dump_strings ''mysql://db'' ''m1''
     \<lparr>stdout = [''Model'', ''Train Statement'', ''m1'', ''SELECT * FROM t'']\<rparr>) = Inr () \<and>
   stdout (snd (submit_local_show_train example_registry example_dump_strings ''mysql://db'' ''m1''
     \<lparr>stdout = [''Model'', ''Train Statement'', ''m1'', ''SELECT * FROM t'']\<rparr>)) =
     [''Model'', ''Train Statement'', ''m1'', ''SELECT * FROM t'',
      ''Model'', ''Train Statement'', ''m1'', ''SELECT * FROM t'']"
proof -
  have r1: "read_metadata_from_db example_registry ''mysql://db'' ''m1'' \<lparr>stdout = []\<rparr> =
     (Inr (model_meta example_m1), \<lparr>stdout = []\<rparr>)"
    by (simp add: example_registry_def memory_registry_def)
  have r2: "read_metadata_from_db example_registry ''mysql://db'' ''m1''
     \<lparr>stdout = [''Model'', ''Train Statement'', ''m1'', ''SELECT * FROM t'']\<rparr> =
     (Inr (model_meta example_m1),
      \<lparr>stdout = [''Model'', ''Train Statement'', ''m1'', ''SELECT * FROM t'']\<rparr>)"
    by (simp add: example_registry_def memory_registry_def)
  have c1: "submit_local_show_train example_registry example_dump_strings ''mysql://db'' ''m1''
     \<lparr>stdout = []\<rparr> =
     (Inr (), \<lparr>stdout = [''Model'', ''Train Statement'', ''m1'', ''SELECT * FROM t'']\<rparr>)"
    by (simp add: submit_local_show_train_def example_registry_def memory_registry_def
        example_m1_def dict_get_def example_dump_strings_def print_def)
  show ?thesis
    using r1 r2 c1
      submit_local_show_train_deterministic [OF r1 r2, where dump_strings = example_dump_strings]
    by auto
qed

end
